theory Spec2Isabelle
  imports Complex_Main "HOL-Library.List_Lexorder" "HOL-Library.Char_ord"
begin

section \<open>Exceptions\<close>

text \<open>
  The C++ sources signal failure by throwing. Every throw is a value here: the
  constructor names the exception class and carries its \<open>what()\<close> text.
  \<open>JsonException\<close> stands for the exceptions of the JSON library (parse and type
  errors). \<open>UndefinedBehaviour\<close> marks the places where the source dereferences an end
  iterator or a null pointer; the C++ standard gives such an execution no meaning, so
  the model gives it no result.
\<close>

datatype error =
    OutOfRange string
  | RuntimeError string
  | InvalidArgument string
  | JsonException
  | UndefinedBehaviour

definition ebind :: "error + 'a \<Rightarrow> ('a \<Rightarrow> error + 'b) \<Rightarrow> error + 'b" where
  "ebind r f = (case r of Inl e \<Rightarrow> Inl e | Inr v \<Rightarrow> f v)"

section \<open>Characters and decimal numerals\<close>

text \<open>\<open>std::tolower\<close> and \<open>isdigit\<close> in the "C" locale, on ASCII.\<close>

definition tolower :: "char \<Rightarrow> char" where
  "tolower c =
     (case map_of (zip ''ABCDEFGHIJKLMNOPQRSTUVWXYZ'' ''abcdefghijklmnopqrstuvwxyz'') c of
        Some l \<Rightarrow> l
      | None \<Rightarrow> c)"

definition isdigit :: "char \<Rightarrow> bool" where
  "isdigit c = (c \<in> set ''0123456789'')"

definition digit_value :: "char \<Rightarrow> nat" where
  "digit_value c = of_char c - 48"

text \<open>\<open>std::to_string\<close> on an \<open>unsigned int\<close>: the decimal numeral.\<close>

fun to_string :: "nat \<Rightarrow> string" where
  "to_string n =
     (if n < 10 then [''0123456789'' ! n]
      else to_string (n div 10) @ [''0123456789'' ! (n mod 10)])"

declare to_string.simps [simp del]

section \<open>\<open>std::map\<close>\<close>

text \<open>
  A \<open>std::map\<close> is kept as the list of its entries in ascending key order, which is
  the order its iterators visit. \<open>map_find\<close> is \<open>find\<close> (\<open>None\<close> for \<open>end()\<close>),
  \<open>map_insert\<close> is \<open>insert\<close>, which leaves the container alone when the key is
  already there, and \<open>map_assign\<close> is the assignment through a reference to a mapped
  value (\<open>find(k)->second = v\<close>, \<open>at(k) = v\<close>).
\<close>

type_synonym ('k, 'v) std_map = "('k \<times> 'v) list"

definition map_find :: "'k \<Rightarrow> ('k, 'v) std_map \<Rightarrow> 'v option" where
  "map_find k m = map_of m k"

fun place :: "'k::linorder \<Rightarrow> 'v \<Rightarrow> ('k, 'v) std_map \<Rightarrow> ('k, 'v) std_map" where
  "place k v [] = [(k, v)]"
| "place k v ((k', v') # m) =
     (if k < k' then (k, v) # (k', v') # m else (k', v') # place k v m)"

definition map_insert :: "'k::linorder \<Rightarrow> 'v \<Rightarrow> ('k, 'v) std_map \<Rightarrow> ('k, 'v) std_map" where
  "map_insert k v m = (if map_find k m = None then place k v m else m)"

fun map_assign :: "'k \<Rightarrow> 'v \<Rightarrow> ('k, 'v) std_map \<Rightarrow> ('k, 'v) std_map" where
  "map_assign k v [] = []"
| "map_assign k v ((k', v') # m) =
     (if k = k' then (k', v) # m else (k', v') # map_assign k v m)"

text \<open>The range overload \<open>insert(first, last)\<close> inserts the entries one by one.\<close>

definition map_insert_range ::
  "('k::linorder, 'v) std_map \<Rightarrow> ('k, 'v) std_map \<Rightarrow> ('k, 'v) std_map" where
  "map_insert_range src m = foldl (\<lambda>acc (k, v). map_insert k v acc) m src"

definition ordered :: "('k::linorder, 'v) std_map \<Rightarrow> bool" where
  "ordered m = sorted_wrt (<) (map fst m)"

section \<open>Measure (measure.cpp)\<close>

text \<open>
  Years are \<open>unsigned int\<close> in the source; no arithmetic is done on them, so they are
  natural numbers here. Readings are \<open>double\<close> in the source and real numbers here:
  rounding, infinities and NaN are outside the model. In particular the sum of
  \<open>getAverage\<close> is exact here and rounded there, and where
  \<open>getDifferenceAsPercentage\<close> divides by a first reading of 0 the source yields an
  infinity and the model, by the convention of division in HOL, yields 0. No result
  below rests on a rounded sum or on a division by 0.
\<close>

record Measure =
  codename :: string
  label :: string
  readings :: "(nat, real) std_map"

text \<open>
  The constructor builds the lowercased copy \<open>temp\<close> character by character and then
  stores the parameter \<open>codename\<close> itself.
\<close>

definition Measure_ctor :: "string \<Rightarrow> string \<Rightarrow> Measure" where
  "Measure_ctor codename0 label0 =
     (let temp = foldl (\<lambda>t c. t @ [tolower c]) [] codename0
      in \<lparr>codename = codename0, label = label0, readings = []\<rparr>)"

definition getCodename :: "Measure \<Rightarrow> string" where
  "getCodename m = codename m"

definition getLabel :: "Measure \<Rightarrow> string" where
  "getLabel m = label m"

definition setLabel :: "Measure \<Rightarrow> string \<Rightarrow> Measure" where
  "setLabel m l = m\<lparr>label := l\<rparr>"

definition getValue :: "Measure \<Rightarrow> nat \<Rightarrow> error + real" where
  "getValue m key =
     (case map_find key (readings m) of
        None \<Rightarrow> Inl (OutOfRange (''No value found for year '' @ to_string key))
      | Some v \<Rightarrow> Inr v)"

definition setValue :: "Measure \<Rightarrow> nat \<Rightarrow> real \<Rightarrow> Measure" where
  "setValue m key val =
     (let r = (if map_find key (readings m) \<noteq> None
               then map_assign key val (readings m)
               else readings m)
      in m\<lparr>readings := map_insert key val r\<rparr>)"

definition Measure_size :: "Measure \<Rightarrow> nat" where
  "Measure_size m = length (readings m)"

text \<open>
  \<open>getDifference\<close> reads \<open>rbegin()->second\<close> and \<open>begin()->second\<close> with no test
  for an empty container; on an empty \<open>std::map\<close> both are end iterators.
\<close>

definition getDifference :: "Measure \<Rightarrow> error + real" where
  "getDifference m =
     (case readings m of
        [] \<Rightarrow> Inl UndefinedBehaviour
      | e # es \<Rightarrow> Inr (snd (last (e # es)) - snd e))"

definition getDifferenceAsPercentage :: "Measure \<Rightarrow> error + real" where
  "getDifferenceAsPercentage m =
     ebind (getDifference m) (\<lambda>d.
       if d = 0 then Inr 0
       else ebind (getDifference m) (\<lambda>d'.
         case readings m of
           [] \<Rightarrow> Inl UndefinedBehaviour
         | e # es \<Rightarrow> Inr ((d' / snd e) * 100)))"

definition getAverage :: "Measure \<Rightarrow> real" where
  "getAverage m =
     (if length (readings m) = 0 then 0
      else (let sum = foldl (\<lambda>s reading. s + snd reading) 0 (readings m)
            in sum / real (length (readings m))))"

text \<open>\<open>merge\<close> is one call of the range \<open>insert\<close> on the readings.\<close>

definition Measure_merge :: "Measure \<Rightarrow> Measure \<Rightarrow> Measure" where
  "Measure_merge m measureNew =
     m\<lparr>readings := map_insert_range (readings measureNew) (readings m)\<rparr>"

text \<open>
  The stream insertion operator. The stream is the text written so far; the decimal
  rendering of a \<open>double\<close> by \<open>std::to_string\<close> is the parameter \<open>dstr\<close>. The first
  three statements (the label line, the years, the column titles) are
  \<open>write_titles\<close>; the rest (the values and the three statistics) is added by
  \<open>Measure_out\<close>.
\<close>

definition tab :: string where
  "tab = ''    ''"

definition endl :: string where
  "endl = [CHR 0x0A]"

definition write_titles :: "string \<Rightarrow> Measure \<Rightarrow> string" where
  "write_titles os m =
     (let os1 = os @ label m @ tab @ ''('' @ codename m @ '')'' @ endl;
          os2 = foldl (\<lambda>out reading. out @ tab @ to_string (fst reading)) os1 (readings m)
      in os2 @ tab @ ''Average'' @ tab @ ''Diff.'' @ tab @ '' % Diff.'' @ endl)"

definition Measure_out :: "(real \<Rightarrow> string) \<Rightarrow> string \<Rightarrow> Measure \<Rightarrow> error + string" where
  "Measure_out dstr os m =
     (let os3 = write_titles os m;
          os4 = foldl (\<lambda>out reading. out @ dstr (snd reading) @ '' '') os3 (readings m)
      in ebind (getDifference m) (\<lambda>d.
         ebind (getDifferenceAsPercentage m) (\<lambda>p.
           Inr (os4 @ dstr (getAverage m) @ tab @ dstr d @ tab @ dstr p @ endl))))"

definition Measure_eq :: "Measure \<Rightarrow> Measure \<Rightarrow> bool" where
  "Measure_eq lhs rhs =
     (if codename lhs \<noteq> codename rhs then False
      else if label lhs \<noteq> label rhs then False
      else readings lhs = readings rhs)"

text \<open>A finite sequence of \<open>setValue\<close> calls, applied from left to right.\<close>

definition setValues :: "Measure \<Rightarrow> (nat \<times> real) list \<Rightarrow> Measure" where
  "setValues m calls = foldl (\<lambda>acc (year, val). setValue acc year val) m calls"

section \<open>Helper functions of the BethYw namespace\<close>

definition convertToLower :: "string \<Rightarrow> string" where
  "convertToLower str = foldl (\<lambda>lower c. lower @ [tolower c]) [] str"

definition insensitiveEquals :: "string \<Rightarrow> string \<Rightarrow> bool" where
  "insensitiveEquals a b = (convertToLower a = convertToLower b)"

text \<open>
  \<open>validateYear\<close>: the sentinel, the length test, the loop that throws at the first
  character that is not a digit, the conversion and the cutoff. \<open>std::stoi\<close> is only
  reached with four digit characters, where it is the decimal value (at most 9999, so
  the conversion to \<open>unsigned int\<close> changes nothing).
\<close>

definition invalid_year :: error where
  "invalid_year = InvalidArgument ''Invalid input for years argument''"

fun check_digits :: "string \<Rightarrow> error + unit" where
  "check_digits [] = Inr ()"
| "check_digits (ch # chs) =
     (if \<not> isdigit ch then Inl invalid_year else check_digits chs)"

definition stoi :: "string \<Rightarrow> nat" where
  "stoi str = foldl (\<lambda>acc c. 10 * acc + digit_value c) 0 str"

definition validateYear :: "string \<Rightarrow> error + nat" where
  "validateYear yearSting =
     (if yearSting = ''0'' then Inr 0
      else if length yearSting \<noteq> 4 then Inl invalid_year
      else ebind (check_digits yearSting) (\<lambda>_.
        let year = stoi yearSting
        in if year \<ge> 2021 then Inl invalid_year else Inr year))"

section \<open>Area\<close>

text \<open>
  Modelled from the spec: the class \<open>Area\<close> (its declaration and its member
  functions) is not among the sources; only its callers in the \<open>Areas\<close> class are.
  The spec gives an Area a local authority code, a mapping from language code to
  display name and a mapping from measure codename to Measure.
\<close>

record Area =
  localAuthorityCode :: string
  names :: "(string, string) std_map"
  measures :: "(string, Measure) std_map"

text \<open>
  Modelled from the spec: the missing constructor of \<open>Area\<close>, "stores code; empty
  names and measures mappings".
\<close>

definition Area_ctor :: "string \<Rightarrow> Area" where
  "Area_ctor code = \<lparr>localAuthorityCode = code, names = [], measures = []\<rparr>"

text \<open>
  Modelled from the spec: the missing \<open>Area::setName\<close>, "upsert into names
  mapping".
\<close>

definition setName :: "Area \<Rightarrow> string \<Rightarrow> string \<Rightarrow> Area" where
  "setName a lang name =
     a\<lparr>names := (if map_find lang (names a) = None
                  then map_insert lang name (names a)
                  else map_assign lang name (names a))\<rparr>"

text \<open>
  Modelled from the spec: the missing \<open>Area::setMeasure\<close>, "if a measure with that
  codename already exists, merge incoming into existing using Measure merge semantics
  (incoming wins on year conflicts); else insert directly", with the Measure merge
  rule of the spec, "union of reading maps; for a year present in both, the incoming
  value wins": every reading of the incoming Measure is set on the existing one. This
  is the rule as the spec words it, not the \<open>Measure::merge\<close> of measure.cpp.
\<close>

definition setMeasure :: "Area \<Rightarrow> string \<Rightarrow> Measure \<Rightarrow> Area" where
  "setMeasure a code msr =
     (case map_find code (measures a) of
        None \<Rightarrow> a\<lparr>measures := map_insert code msr (measures a)\<rparr>
      | Some existing \<Rightarrow>
          a\<lparr>measures := map_assign code (setValues existing (readings msr)) (measures a)\<rparr>)"

text \<open>
  Modelled from the spec: the missing \<open>Area::merge\<close>, "for names, incoming entries
  overwrite existing entries for the same language code, existing entries for other
  language codes are preserved; for measures, incoming Measure entries are merged by
  codename using the Measure merge rule; a measure codename present only in the
  existing Area is preserved as-is", where "other is the incoming/authoritative
  side" and the receiver is the existing one: the names and the measures of the
  argument are set on the receiver one by one.
\<close>

definition Area_merge :: "Area \<Rightarrow> Area \<Rightarrow> Area" where
  "Area_merge self other =
     (let a1 = foldl (\<lambda>a (lang, name). setName a lang name) self (names other)
      in foldl (\<lambda>a (code, msr). setMeasure a code msr) a1 (measures other))"

section \<open>Areas\<close>

text \<open>
  The class has one data member, the container \<open>areas\<close> from local authority code
  to Area, so an \<open>Areas\<close> object is that container.
\<close>

type_synonym Areas = "(string, Area) std_map"

definition Areas_ctor :: Areas where
  "Areas_ctor = []"

text \<open>
  \<open>setArea\<close>: when the code is present the call is \<open>area.merge(areas.at(code))\<close>,
  with the incoming Area as the receiver and the stored one as the argument, and the
  result is assigned to the entry.
\<close>

definition setArea :: "Areas \<Rightarrow> string \<Rightarrow> Area \<Rightarrow> Areas" where
  "setArea areas code area =
     (case map_find code areas of
        None \<Rightarrow> map_insert code area areas
      | Some existing \<Rightarrow> map_assign code (Area_merge area existing) areas)"

definition getArea :: "Areas \<Rightarrow> string \<Rightarrow> error + Area" where
  "getArea areas code =
     (case map_find code areas of
        None \<Rightarrow> Inl (OutOfRange (''No area found matching '' @ code))
      | Some a \<Rightarrow> Inr a)"

definition Areas_size :: "Areas \<Rightarrow> nat" where
  "Areas_size areas = length areas"

text \<open>
  \<open>setArea\<close> with its call of \<open>Area::merge\<close> left open: \<open>merge receiver argument\<close>
  stands for the state of the receiver after \<open>receiver.merge(argument)\<close>.
\<close>

definition setArea_by ::
  "(Area \<Rightarrow> Area \<Rightarrow> Area) \<Rightarrow> Areas \<Rightarrow> string \<Rightarrow> Area \<Rightarrow> Areas" where
  "setArea_by merge areas code area =
     (case map_find code areas of
        None \<Rightarrow> map_insert code area areas
      | Some existing \<Rightarrow> map_assign code (merge area existing) areas)"


subsection \<open>Input streams and the parameters of the parsers\<close>

text \<open>
  An input stream is its state flag and the characters not yet read. \<open>getline\<close> fails
  on a stream that is not good or has nothing left; otherwise it returns the
  characters up to the next newline and consumes the newline.
\<close>

record istream =
  good :: bool
  buf :: string

definition getline :: "istream \<Rightarrow> string option \<times> istream" where
  "getline strm =
     (if \<not> good strm \<or> buf strm = [] then (None, strm\<lparr>good := False\<rparr>)
      else (Some (takeWhile (\<lambda>c. c \<noteq> CHR 0x0A) (buf strm)),
            strm\<lparr>buf := drop 1 (dropWhile (\<lambda>c. c \<noteq> CHR 0x0A) (buf strm))\<rparr>))"

text \<open>
  Modelled from the spec: the enumerations \<open>SourceColumn\<close> and \<open>SourceDataType\<close>
  and the type of the column mapping are declared in a header that is not among the
  sources. The spec lists six roles and three formats; the mapping is the list of its
  entries, \<open>at\<close> throws on a missing key.
\<close>

datatype SourceColumn =
  AUTH_CODE | AUTH_NAME_ENG | AUTH_NAME_CYM | MEASURE_CODE | MEASURE_NAME | YEAR

datatype SourceDataType = AuthorityCodeCSV | AuthorityByYearCSV | WelshStatsJSON

type_synonym SourceColumnMapping = "(SourceColumn \<times> string) list"

definition cols_at :: "SourceColumnMapping \<Rightarrow> SourceColumn \<Rightarrow> error + string" where
  "cols_at cols c =
     (case map_of cols c of None \<Rightarrow> Inl (OutOfRange ''at'') | Some s \<Rightarrow> Inr s)"

text \<open>
  The filters arrive as pointers: \<open>None\<close> is \<open>nullptr\<close>.
\<close>

type_synonym StringFilterSet = "string set"
type_synonym YearFilterTuple = "nat \<times> nat"

subsection \<open>Format 1: the areas CSV\<close>

definition getVerableCSV :: "string \<Rightarrow> string \<times> string" where
  "getVerableCSV line =
     (if CHR '','' \<notin> set line then (line, line)
      else (takeWhile (\<lambda>c. c \<noteq> CHR '','') line,
            drop 1 (dropWhile (\<lambda>c. c \<noteq> CHR '','') line)))"

text \<open>
  The body of the \<open>while\<close> loop on one line. The filter is only consulted when
  \<open>all\<close> is false, that is when the pointer is not null; \<open>flt\<close> is the set it
  points to.
\<close>

definition csv_row :: "bool \<Rightarrow> StringFilterSet \<Rightarrow> string \<Rightarrow> Areas \<Rightarrow> Areas" where
  "csv_row all flt line areas =
     (let (code, line1) = getVerableCSV line
      in if all \<or> code \<in> flt
         then (let temp = Area_ctor code;
                   (eng, line2) = getVerableCSV line1;
                   temp1 = setName temp ''eng'' eng;
                   (cym, line3) = getVerableCSV line2;
                   temp2 = setName temp1 ''cym'' cym
               in setArea areas code temp2)
         else areas)"

function csv_rows :: "bool \<Rightarrow> StringFilterSet \<Rightarrow> istream \<Rightarrow> Areas \<Rightarrow> Areas" where
  "csv_rows all flt strm areas =
     (case getline strm of
        (None, strm') \<Rightarrow> areas
      | (Some line, strm') \<Rightarrow> csv_rows all flt strm' (csv_row all flt line areas))"
  by pat_completeness auto
termination
  apply (relation "measure (\<lambda>(all, flt, strm, areas). length (buf strm))")
   apply simp
  apply (auto simp: getline_def split: if_splits)
  subgoal for strm
    using length_dropWhile_le [of "\<lambda>c. c \<noteq> CHR 0x0A" "buf strm"]
    by (cases "buf strm") auto
  done

declare csv_rows.simps [simp del]

definition populateFromAuthorityCodeCSV ::
  "Areas \<Rightarrow> istream \<Rightarrow> SourceColumnMapping \<Rightarrow> StringFilterSet option
     \<Rightarrow> error option \<times> Areas" where
  "populateFromAuthorityCodeCSV areas strm cols areasFilter =
     (if length cols < 3 then (Some (OutOfRange ''Not enough columns''), areas)
      else if \<not> good strm then (Some (RuntimeError ''Failed to open file''), areas)
      else (let (header, strm1) = getline strm;
                all = (case areasFilter of None \<Rightarrow> True | Some f \<Rightarrow> f = {});
                flt = (case areasFilter of None \<Rightarrow> {} | Some f \<Rightarrow> f)
            in (None, csv_rows all flt strm1 areas)))"

subsection \<open>Format 2: the StatsWales JSON\<close>

text \<open>
  The JSON library is not part of the repository. A record of the \<open>value\<close> array is
  a flat object whose members are strings, numbers or null (what \<open>data[key]\<close> gives
  for a key that is not there); the conversion of a member to \<open>std::string\<close> or to
  \<open>double\<close> throws when the member is not of that kind. Reading the document
  (\<open>is >> j\<close>) and walking \<open>j["value"].items()\<close> is the parameter \<open>parse\<close>, from
  the text the stream can deliver to the records, \<open>None\<close> when the library throws.
\<close>

datatype json = JString string | JNumber real | JNull

type_synonym json_object = "(string \<times> json) list"

definition json_string :: "json_object \<Rightarrow> string \<Rightarrow> error + string" where
  "json_string data key =
     (case map_of data key of Some (JString s) \<Rightarrow> Inr s | _ \<Rightarrow> Inl JsonException)"

definition json_double :: "json_object \<Rightarrow> string \<Rightarrow> error + real" where
  "json_double data key =
     (case map_of data key of Some (JNumber r) \<Rightarrow> Inr r | _ \<Rightarrow> Inl JsonException)"

definition readable :: "istream \<Rightarrow> string" where
  "readable strm = (if good strm then buf strm else [])"

text \<open>
  The statements of the loop body that build the Measure of one record, after the
  measure filter has let it through: the measure code, the reading, the label, the
  year through \<open>validateYear\<close>, and \<open>setValue\<close> only when the year filter admits
  the year.
\<close>

definition record_measure ::
  "SourceColumnMapping \<Rightarrow> bool \<Rightarrow> nat \<Rightarrow> nat \<Rightarrow> json_object \<Rightarrow> error + string \<times> Measure" where
  "record_measure cols allYears yearStart yearEnd data =
     ebind (ebind (cols_at cols MEASURE_CODE) (json_string data)) (\<lambda>measureCode.
     ebind (json_double data ''Data'') (\<lambda>reading.
     ebind (ebind (cols_at cols MEASURE_NAME) (json_string data)) (\<lambda>measureName.
     let msr = Measure_ctor measureCode measureName
     in ebind (ebind (ebind (cols_at cols YEAR) (json_string data)) validateYear) (\<lambda>year.
        Inr (measureCode,
             if allYears \<or> (year \<ge> yearStart \<and> year \<le> yearEnd)
             then setValue msr year reading
             else msr)))))"

text \<open>
  The loop body on one record. \<open>filterContains\<close> of the BethYw namespace is not among
  the sources and is the parameter \<open>fc\<close>; it receives the filter pointer. An exception
  leaves the container as it is at the throw, so the body returns the container
  together with the exception, if any.
\<close>

definition welsh_record ::
  "(StringFilterSet option \<Rightarrow> string \<Rightarrow> bool) \<Rightarrow> SourceColumnMapping
     \<Rightarrow> StringFilterSet option \<Rightarrow> StringFilterSet option
     \<Rightarrow> bool \<Rightarrow> bool \<Rightarrow> bool \<Rightarrow> nat \<Rightarrow> nat
     \<Rightarrow> Areas \<Rightarrow> json_object \<Rightarrow> error option \<times> Areas" where
  "welsh_record fc cols areasFilter measuresFilter allAreas allMeasures allYears
       yearStart yearEnd areas data =
     (case ebind (cols_at cols AUTH_CODE) (json_string data) of
        Inl e \<Rightarrow> (Some e, areas)
      | Inr authCode \<Rightarrow>
          if allAreas \<or> fc areasFilter authCode
          then
            (case (if map_find authCode areas = None
                   then ebind (ebind (cols_at cols AUTH_NAME_ENG) (json_string data))
                          (\<lambda>eng. Inr (map_insert authCode
                                         (setName (Area_ctor authCode) ''eng'' eng)
                                         areas))
                   else Inr areas) of
               Inl e \<Rightarrow> (Some e, areas)
             | Inr areas1 \<Rightarrow>
                 (case ebind (cols_at cols MEASURE_CODE) (json_string data) of
                    Inl e \<Rightarrow> (Some e, areas1)
                  | Inr code \<Rightarrow>
                      let lowerMeasureCode = convertToLower code
                      in if allMeasures \<or> fc measuresFilter lowerMeasureCode
                         then
                           (case record_measure cols allYears yearStart yearEnd data of
                              Inl e \<Rightarrow> (Some e, areas1)
                            | Inr (measureCode, msr) \<Rightarrow>
                                (case map_find authCode areas1 of
                                   None \<Rightarrow> (Some (OutOfRange ''at''), areas1)
                                 | Some a \<Rightarrow>
                                     (None, map_assign authCode
                                              (setMeasure a measureCode msr) areas1)))
                         else (None, areas1)))
          else (None, areas))"

fun welsh_records ::
  "(StringFilterSet option \<Rightarrow> string \<Rightarrow> bool) \<Rightarrow> SourceColumnMapping
     \<Rightarrow> StringFilterSet option \<Rightarrow> StringFilterSet option
     \<Rightarrow> bool \<Rightarrow> bool \<Rightarrow> bool \<Rightarrow> nat \<Rightarrow> nat
     \<Rightarrow> Areas \<Rightarrow> json_object list \<Rightarrow> error option \<times> Areas" where
  "welsh_records fc cols af mf allAreas allMeasures allYears ys ye areas [] = (None, areas)"
| "welsh_records fc cols af mf allAreas allMeasures allYears ys ye areas (data # rest) =
     (case welsh_record fc cols af mf allAreas allMeasures allYears ys ye areas data of
        (Some e, areas') \<Rightarrow> (Some e, areas')
      | (None, areas') \<Rightarrow>
          welsh_records fc cols af mf allAreas allMeasures allYears ys ye areas' rest)"

text \<open>
  The function reads the two years through the pointer before it tests the pointer,
  and computes \<open>allMeasures\<close> from the areas pointer: with an areas filter and a null
  measures pointer it calls \<open>empty()\<close> through null.
\<close>

definition populateFromWelshStatsJSON ::
  "(StringFilterSet option \<Rightarrow> string \<Rightarrow> bool) \<Rightarrow> (string \<Rightarrow> json_object list option)
     \<Rightarrow> Areas \<Rightarrow> istream \<Rightarrow> SourceColumnMapping
     \<Rightarrow> StringFilterSet option \<Rightarrow> StringFilterSet option \<Rightarrow> YearFilterTuple option
     \<Rightarrow> error option \<times> Areas" where
  "populateFromWelshStatsJSON fc parse areas strm cols areasFilter measuresFilter yearsFilter =
     (case yearsFilter of
        None \<Rightarrow> (Some UndefinedBehaviour, areas)
      | Some (yearStart, yearEnd) \<Rightarrow>
          let allAreas = (case areasFilter of None \<Rightarrow> True | Some f \<Rightarrow> f = {})
          in (case (case areasFilter of
                      None \<Rightarrow> Inr True
                    | Some f \<Rightarrow> (case measuresFilter of
                                  None \<Rightarrow> Inl UndefinedBehaviour
                                | Some g \<Rightarrow> Inr (g = {}))) of
                Inl e \<Rightarrow> (Some e, areas)
              | Inr allMeasures \<Rightarrow>
                  let allYears = (yearStart = 0 \<and> yearEnd = 0)
                  in (case parse (readable strm) of
                        None \<Rightarrow> (Some JsonException, areas)
                      | Some items \<Rightarrow>
                          welsh_records fc cols areasFilter measuresFilter
                            allAreas allMeasures allYears yearStart yearEnd areas items)))"

subsection \<open>Format 3: one measure by year\<close>

text \<open>
  The body of \<open>populateFromAuthorityByYearCSV\<close> is a single \<open>throw\<close> of a
  \<open>std::runtime_error\<close>; the text of its message (reworded here) says that the
  function is not implemented.
\<close>

definition populateFromAuthorityByYearCSV ::
  "Areas \<Rightarrow> istream \<Rightarrow> SourceColumnMapping
     \<Rightarrow> StringFilterSet option \<Rightarrow> StringFilterSet option \<Rightarrow> YearFilterTuple option
     \<Rightarrow> error option \<times> Areas" where
  "populateFromAuthorityByYearCSV areas strm cols areasFilter measuresFilter yearsFilter =
     (Some (RuntimeError ''Areas::populateFromAuthorityByYearCSV is not implemented''), areas)"

subsection \<open>Dispatch\<close>

text \<open>
  The overload without filters passes no filter on; the parameter it leaves out is taken
  to default to \<open>nullptr\<close> (the declaration is in a header that is not among the
  sources).
\<close>

definition populate3 ::
  "Areas \<Rightarrow> istream \<Rightarrow> SourceDataType \<Rightarrow> SourceColumnMapping \<Rightarrow> error option \<times> Areas" where
  "populate3 areas strm type cols =
     (if type = AuthorityCodeCSV
      then (if length cols < 3 then (Some (OutOfRange ''Cols is out of range''), areas)
            else populateFromAuthorityCodeCSV areas strm cols None)
      else (Some (RuntimeError ''Areas::populate: Unexpected data type''), areas))"

definition populate ::
  "(StringFilterSet option \<Rightarrow> string \<Rightarrow> bool) \<Rightarrow> (string \<Rightarrow> json_object list option)
     \<Rightarrow> Areas \<Rightarrow> istream \<Rightarrow> SourceDataType \<Rightarrow> SourceColumnMapping
     \<Rightarrow> StringFilterSet option \<Rightarrow> StringFilterSet option \<Rightarrow> YearFilterTuple option
     \<Rightarrow> error option \<times> Areas" where
  "populate fc parse areas strm type cols areasFilter measuresFilter yearsFilter =
     (if type = AuthorityCodeCSV \<and> \<not> length cols < 3
      then populateFromAuthorityCodeCSV areas strm cols areasFilter
      else if type = AuthorityByYearCSV \<and> \<not> length cols < 3
      then populateFromAuthorityByYearCSV areas strm cols areasFilter measuresFilter yearsFilter
      else if type = WelshStatsJSON \<and> \<not> length cols < 6
      then populateFromWelshStatsJSON fc parse areas strm cols
             areasFilter measuresFilter yearsFilter
      else (Some (RuntimeError ''Areas::populate: Unexpected data type''), areas))"

section \<open>Properties of the container operations\<close>

lemma place_lookup:
  "map_of m k = None \<Longrightarrow> map_of (place k v m) k' = (if k' = k then Some v else map_of m k')"
  by (induction m) (auto split: if_splits)

lemma map_find_insert:
  "map_find k' (map_insert k v m) =
     (if k' = k \<and> map_find k m = None then Some v else map_find k' m)"
  by (simp add: map_find_def map_insert_def place_lookup)

lemma map_find_assign:
  "map_find k' (map_assign k v m) =
     (if k' = k \<and> map_find k m \<noteq> None then Some v else map_find k' m)"
  unfolding map_find_def by (induction m) auto

lemma length_place: "length (place k v m) = Suc (length m)"
  by (induction m) auto

lemma length_map_assign: "length (map_assign k v m) = length m"
  by (induction m) auto

lemma keys_map_assign: "map fst (map_assign k v m) = map fst m"
  by (induction m) auto

lemma keys_place: "set (map fst (place k v m)) = insert k (set (map fst m))"
  by (induction k v m rule: place.induct) (simp_all add: insert_commute)


lemma map_find_None_iff: "map_find k m = None \<longleftrightarrow> k \<notin> set (map fst m)"
  by (simp add: map_find_def map_of_eq_None_iff)

lemma ordered_place:
  "ordered m \<Longrightarrow> k \<notin> set (map fst m) \<Longrightarrow> ordered (place k v m)"
  unfolding ordered_def
proof (induction m)
  case Nil
  then show ?case by simp
next
  case (Cons e m)
  obtain k' v' where e: "e = (k', v')" by (cases e)
  show ?case
  proof (cases "k < k'")
    case True
    with Cons.prems show ?thesis by (auto simp: e)
  next
    case False
    with Cons.prems have lt: "k' < k" by (auto simp: e)
    from Cons.prems have "\<forall>x\<in>set (map fst (place k v m)). k' < x"
      using lt by (auto simp: e keys_place simp del: set_map)
    with Cons False show ?thesis by (auto simp: e)
  qed
qed

lemma ordered_insert: "ordered m \<Longrightarrow> ordered (map_insert k v m)"
  by (simp add: map_insert_def ordered_place map_find_None_iff)

lemma ordered_assign: "ordered m \<Longrightarrow> ordered (map_assign k v m)"
  by (simp add: ordered_def keys_map_assign)

lemma ordered_distinct: "ordered m \<Longrightarrow> distinct (map fst m)"
  unfolding ordered_def by (simp add: strict_sorted_iff)


lemma map_insert_range_Cons:
  "map_insert_range ((k, v) # src) m = map_insert_range src (map_insert k v m)"
  by (simp add: map_insert_range_def)

lemma map_find_insert_range:
  "map_find y (map_insert_range src m) =
     (case map_find y m of Some v \<Rightarrow> Some v | None \<Rightarrow> map_find y src)"
proof (induction src arbitrary: m)
  case Nil
  then show ?case by (simp add: map_insert_range_def map_find_def split: option.splits)
next
  case (Cons e src)
  obtain k v where e: "e = (k, v)" by (cases e)
  have here: "map_find y ((k, v) # src) = (if y = k then Some v else map_find y src)"
    by (simp add: map_find_def)
  show ?case
    unfolding e map_insert_range_Cons Cons.IH here
    by (simp add: map_find_insert split: option.splits)
qed
section \<open>Measure\<close>

subsection \<open>Construction\<close>

text \<open>
  Claim C3: constructing a Measure normalizes the codename to lowercase and stores the
  label unchanged. The label is stored unchanged, but the constructor assigns the
  codename it was given: the lowercased copy it builds is never used. For the codename
  \<open>Pop\<close>, whose lowercase form is \<open>pop\<close>, \<open>getCodename\<close> returns \<open>Pop\<close>.
\<close>

theorem constructor_keeps_case:
  "getCodename (Measure_ctor ''Pop'' ''Population'') = ''Pop''
   \<and> convertToLower ''Pop'' = ''pop''
   \<and> getLabel (Measure_ctor ''Pop'' ''Population'') = ''Population''"
  by (simp add: getCodename_def getLabel_def Measure_ctor_def convertToLower_def tolower_def)

lemma Measure_ctor_fields:
  "codename (Measure_ctor c l) = c" "label (Measure_ctor c l) = l"
  "readings (Measure_ctor c l) = []"
  by (simp_all add: Measure_ctor_def)

subsection \<open>Sequences of \<open>setValue\<close> calls\<close>








subsection \<open>Statistics\<close>

lemma getAverage_no_readings: "readings m = [] \<Longrightarrow> getAverage m = 0"
  by (simp add: getAverage_def)

lemma getDifference_one_reading: "readings m = [(y, v)] \<Longrightarrow> getDifference m = Inr 0"
  by (simp add: getDifference_def)

lemma getDifferenceAsPercentage_no_change:
  "getDifference m = Inr 0 \<Longrightarrow> getDifferenceAsPercentage m = Inr 0"
  by (simp add: getDifferenceAsPercentage_def ebind_def)

lemma getDifference_defined:
  "readings m \<noteq> [] \<Longrightarrow> \<exists>d. getDifference m = Inr d"
  by (cases "readings m") (simp_all add: getDifference_def)

text \<open>
  Claim C4: \<open>getAverage\<close>, \<open>getDifference\<close> and \<open>getDifferenceAsPercentage\<close>
  never fail, also on a Measure with no readings, where each returns 0.
  \<open>getAverage\<close> tests for the empty container and returns 0. \<open>getDifference\<close> has
  no such test: on a Measure with no readings it dereferences \<open>rbegin()\<close> and
  \<open>begin()\<close> of an empty map, and \<open>getDifferenceAsPercentage\<close> starts by calling
  it. The comments above both functions promise 0 when the value cannot be
  calculated.
\<close>

theorem getDifference_no_readings:
  "Measure_size (Measure_ctor ''pop'' ''Population'') = 0
   \<and> getAverage (Measure_ctor ''pop'' ''Population'') = 0
   \<and> getDifference (Measure_ctor ''pop'' ''Population'') = Inl UndefinedBehaviour
   \<and> getDifferenceAsPercentage (Measure_ctor ''pop'' ''Population'') = Inl UndefinedBehaviour"
  by (simp add: Measure_size_def getAverage_def getDifference_def getDifferenceAsPercentage_def
      Measure_ctor_def ebind_def)

subsection \<open>Merging\<close>

lemma Measure_merge_lookup:
  "map_find y (readings (Measure_merge m measureNew)) =
     (case map_find y (readings m) of
        Some v \<Rightarrow> Some v
      | None \<Rightarrow> map_find y (readings measureNew))"
  by (simp add: Measure_merge_def map_find_insert_range)

text \<open>
  Claim C1: after \<open>m.merge(n)\<close> the readings of \<open>m\<close> are the union of the two
  maps and, for a year present in both, the value is the incoming one, so that
  {1999:1, 2000:2} merged with incoming {2000:99, 2001:3} is {1999:1, 2000:99, 2001:3}.
  The years are the union, but \<open>merge\<close> is a range \<open>insert\<close>, which leaves the
  entry of a year that is already present alone (\<open>Measure_merge_lookup\<close>): the result
  is {1999:1, 2000:2, 2001:3} and year 2000 keeps the existing value 2. The comment
  above the function says that new data replace the old.
\<close>

theorem merge_keeps_existing_reading:
  "readings (Measure_merge
       (setValues (Measure_ctor ''a'' ''A'') [(1999, 1), (2000, 2)])
       (setValues (Measure_ctor ''a'' ''A'') [(2000, 99), (2001, 3)]))
     = [(1999, 1), (2000, 2), (2001, 3)]
   \<and> getValue (Measure_merge
       (setValues (Measure_ctor ''a'' ''A'') [(1999, 1), (2000, 2)])
       (setValues (Measure_ctor ''a'' ''A'') [(2000, 99), (2001, 3)])) 2000 = Inr 2"
  by (simp add: Measure_merge_def setValues_def setValue_def Measure_ctor_def getValue_def
      map_insert_range_def map_insert_def map_find_def)

subsection \<open>Text rendering\<close>

text \<open>
  Claim C9: a Measure with no readings is rendered as its label and codename line
  followed by the line \<open><no data>\<close>, without the row of column titles and without the
  row of values. The operator has no branch for the empty Measure: after the label
  line it writes the row of column titles (with no years) and then computes the
  statistics, where \<open>getDifference\<close> dereferences the iterators of the empty map. The
  marker \<open><no data>\<close> is never written; the comment above the operator asks for it.
\<close>

theorem no_data_marker_missing:
  "write_titles os (Measure_ctor ''pop'' ''Population'') =
     os @ ''Population    (pop)'' @ endl @ ''    Average    Diff.     % Diff.'' @ endl
   \<and> Measure_out dstr os (Measure_ctor ''pop'' ''Population'') = Inl UndefinedBehaviour"
  by (simp add: write_titles_def Measure_out_def Measure_ctor_def getDifference_def ebind_def
      tab_def Let_def)

section \<open>Year validation\<close>

lemma check_digits_eq:
  "check_digits s = (if \<forall>c\<in>set s. isdigit c then Inr () else Inl invalid_year)"
  by (induction s) auto

lemma validateYear_cases:
  "validateYear s =
     (if s = ''0'' then Inr 0
      else if length s \<noteq> 4 \<or> (\<exists>c\<in>set s. \<not> isdigit c) \<or> 2021 \<le> stoi s then Inl invalid_year
      else Inr (stoi s))"
  by (simp add: validateYear_def check_digits_eq ebind_def Let_def)

lemma stoi_four:
  "stoi [a, b, c, d] =
     1000 * digit_value a + 100 * digit_value b + 10 * digit_value c + digit_value d"
  by (simp add: stoi_def)
text \<open>
  Claim C6: \<open>validateYear\<close> returns 0 on the sentinel \<open>0\<close>; on four digits
  \<open>a b c d\<close> whose decimal value is below 2021 it returns that value; it throws
  \<open>std::invalid_argument\<close> exactly when the string is not the sentinel and has a
  length other than four, or a character that is not a digit, or denotes a year from
  2021 on; and it throws nothing else.
\<close>

theorem validateYear_spec:
  "validateYear ''0'' = Inr 0
   \<and> (isdigit a \<and> isdigit b \<and> isdigit c \<and> isdigit d
        \<and> 1000 * digit_value a + 100 * digit_value b + 10 * digit_value c + digit_value d < 2021
      \<longrightarrow> validateYear [a, b, c, d] =
            Inr (1000 * digit_value a + 100 * digit_value b + 10 * digit_value c + digit_value d))
   \<and> ((validateYear s = Inl invalid_year) =
        (s \<noteq> ''0'' \<and>
          (length s \<noteq> 4 \<or> (\<exists>c\<in>set s. \<not> isdigit c)
           \<or> (length s = 4 \<and> (\<forall>c\<in>set s. isdigit c) \<and> 2021 \<le> stoi s))))
   \<and> ((\<exists>e. validateYear s = Inl e) = (validateYear s = Inl invalid_year))"
proof -
  have sentinel: "validateYear ''0'' = Inr 0"
    by (simp add: validateYear_def)
  have valid: "isdigit a \<and> isdigit b \<and> isdigit c \<and> isdigit d
        \<and> 1000 * digit_value a + 100 * digit_value b + 10 * digit_value c + digit_value d < 2021
      \<longrightarrow> validateYear [a, b, c, d] =
            Inr (1000 * digit_value a + 100 * digit_value b + 10 * digit_value c + digit_value d)"
    by (simp add: validateYear_cases stoi_four)
  have fails: "(validateYear s = Inl invalid_year) =
        (s \<noteq> ''0'' \<and>
          (length s \<noteq> 4 \<or> (\<exists>c\<in>set s. \<not> isdigit c)
           \<or> (length s = 4 \<and> (\<forall>c\<in>set s. isdigit c) \<and> 2021 \<le> stoi s)))"
    by (auto simp: validateYear_cases)
  have only: "(\<exists>e. validateYear s = Inl e) = (validateYear s = Inl invalid_year)"
    by (simp add: validateYear_cases)
  from sentinel valid fails only show ?thesis by blast
qed

theorem validateYear_spec_witness:
  "validateYear ''0'' = Inr 0
   \<and> validateYear ''1999'' = Inr 1999
   \<and> validateYear ''99'' = Inl invalid_year
   \<and> validateYear ''abcd'' = Inl invalid_year
   \<and> validateYear ''2025'' = Inl invalid_year"
  using validateYear_spec [of "CHR ''1''" "CHR ''9''" "CHR ''9''" "CHR ''9''" "''99''"]
    validateYear_spec [of "CHR ''1''" "CHR ''9''" "CHR ''9''" "CHR ''9''" "''abcd''"]
    validateYear_spec [of "CHR ''1''" "CHR ''9''" "CHR ''9''" "CHR ''9''" "''2025''"]
  by (simp add: isdigit_def digit_value_def stoi_def)

section \<open>Areas\<close>

subsection \<open>\<open>setArea\<close>\<close>

text \<open>
  What \<open>setArea\<close> does on its own, whatever \<open>Area::merge\<close> does: a code that is
  present keeps its one entry, the number of entries and their order are unchanged,
  and the entry becomes the incoming Area after \<open>area.merge(stored)\<close>, the incoming
  Area being the receiver of the call.
\<close>

lemma setArea_is_setArea_by: "setArea areas code area = setArea_by Area_merge areas code area"
  by (simp add: setArea_def setArea_by_def)

lemma setArea_by_keys:
  "map_find code areas \<noteq> None \<Longrightarrow> map fst (setArea_by merge areas code area) = map fst areas"
  by (auto simp: setArea_by_def keys_map_assign)

lemma setArea_by_size:
  "map_find code areas \<noteq> None \<Longrightarrow>
   Areas_size (setArea_by merge areas code area) = Areas_size areas"
  by (auto simp: setArea_by_def Areas_size_def length_map_assign)

lemma setArea_by_ordered: "ordered areas \<Longrightarrow> ordered (setArea_by merge areas code area)"
  by (simp add: setArea_by_def ordered_insert ordered_assign split: option.splits)

lemma setArea_by_lookup:
  "map_find code areas = Some existing \<Longrightarrow>
   map_find c (setArea_by merge areas code area) =
     (if c = code then Some (merge area existing) else map_find c areas)"
  by (simp add: setArea_by_def map_find_assign)

lemma setArea_by_receiver_wins:
  assumes keeps: "\<And>self other l n. map_find l (names self) = Some n
                    \<Longrightarrow> map_find l (names (merge self other)) = Some n"
    and present: "map_find code areas = Some existing"
    and incoming: "map_find l (names area) = Some new"
  shows "\<exists>a. getArea (setArea_by merge areas code area) code = Inr a
           \<and> map_find l (names a) = Some new"
  using keeps [OF incoming] present by (simp add: getArea_def setArea_by_lookup)

lemma setArea_by_argument_wins:
  assumes overwrites: "\<And>self other l n. map_find l (names other) = Some n
                    \<Longrightarrow> map_find l (names (merge self other)) = Some n"
    and present: "map_find code areas = Some existing"
    and stored: "map_find l (names existing) = Some old"
  shows "\<exists>a. getArea (setArea_by merge areas code area) code = Inr a
           \<and> map_find l (names a) = Some old"
  using overwrites [OF stored] present by (simp add: getArea_def setArea_by_lookup)

text \<open>
  Which side prevails on a conflict is decided inside \<open>Area::merge\<close>
  (\<open>setArea_by_receiver_wins\<close>, \<open>setArea_by_argument_wins\<close>). With the merge as the
  spec words it, where the argument is the authoritative side, the names of the stored
  Area prevail in \<open>setArea\<close>.
\<close>

lemma setArea_size_present:
  "map_find code areas \<noteq> None \<Longrightarrow> Areas_size (setArea areas code a) = Areas_size areas"
  by (auto simp: setArea_def Areas_size_def length_map_assign)

lemma setArea_size_absent:
  "map_find code areas = None \<Longrightarrow> Areas_size (setArea areas code a) = Suc (Areas_size areas)"
  by (simp add: setArea_def Areas_size_def map_insert_def length_place)

lemma setArea_ordered: "ordered areas \<Longrightarrow> ordered (setArea areas code a)"
  by (simp add: setArea_def ordered_insert ordered_assign split: option.splits)

lemma setName_lookup:
  "map_find l (names (setName a lang name)) = (if l = lang then Some name else map_find l (names a))"
  by (simp add: setName_def map_find_insert map_find_assign)

lemma setName_measures: "measures (setName a lang name) = measures a"
  by (simp add: setName_def)

lemma setMeasure_names: "names (setMeasure a code msr) = names a"
  by (simp add: setMeasure_def split: option.splits)




lemma fold_setName_lookup:
  "map_find l (names (foldl (\<lambda>a (lang, name). setName a lang name) self ns)) =
     (case map_of (rev ns) l of Some n \<Rightarrow> Some n | None \<Rightarrow> map_find l (names self))"
proof (induction ns arbitrary: self)
  case Nil
  then show ?case by simp
next
  case (Cons e ns)
  obtain lang name where e: "e = (lang, name)" by (cases e)
  show ?case
    using Cons.IH [of "setName self lang name"]
    by (auto simp: e setName_lookup map_add_def split: option.splits)
qed

lemma fold_setMeasure_names:
  "names (foldl (\<lambda>a (code, msr). setMeasure a code msr) self ms) = names self"
proof (induction ms arbitrary: self)
  case Nil
  then show ?case by simp
next
  case (Cons e ms)
  obtain code msr where e: "e = (code, msr)" by (cases e)
  show ?case
    using Cons.IH [of "setMeasure self code msr"] by (simp add: e setMeasure_names)
qed

lemma Area_merge_names:
  assumes "distinct (map fst (names other))"
  shows "map_find l (names (Area_merge self other)) =
     (case map_find l (names other) of Some n \<Rightarrow> Some n | None \<Rightarrow> map_find l (names self))"
proof -
  have "map_of (rev (names other)) = map_of (names other)"
    using assms by (subst map_of_inject_set) (simp_all add: rev_map [symmetric])
  then show ?thesis
    using fold_setName_lookup [of l self "names other"]
    by (simp add: Area_merge_def Let_def fold_setMeasure_names map_find_def)
qed

lemma setArea_present:
  "map_find code areas = Some existing \<Longrightarrow>
   getArea (setArea areas code area) code = Inr (Area_merge area existing)"
  by (simp add: setArea_def getArea_def map_find_assign)

lemma setArea_stored_name_survives:
  assumes "map_find code areas = Some existing" and "distinct (map fst (names existing))"
    and "map_find l (names existing) = Some old"
  shows "\<exists>a. getArea (setArea areas code area) code = Inr a \<and> map_find l (names a) = Some old"
  using assms by (simp add: setArea_present Area_merge_names)

subsection \<open>Streams without content\<close>

lemma closed_stream_rejected:
  "\<not> good strm \<Longrightarrow> 3 \<le> length cols \<Longrightarrow>
   populate fc parse areas strm AuthorityCodeCSV cols areasFilter measuresFilter yearsFilter
     = (Some (RuntimeError ''Failed to open file''), areas)"
  by (simp add: populate_def populateFromAuthorityCodeCSV_def)

text \<open>
  Claim C7: \<open>populate\<close> on a stream that is not open, not readable or has no content
  fails with a parse error before any row is read and leaves the container unchanged.
  A stream that is not good is rejected by the CSV parser
  (\<open>closed_stream_rejected\<close>), but nothing tests for content: on a good stream with
  nothing in it the parser finds no header and no rows and returns normally. The
  container is unchanged, and no error is raised. The comment above \<open>populate\<close> says
  that the function must check that the stream has content.
\<close>

theorem empty_stream_accepted:
  "populate fc parse areas \<lparr>good = True, buf = []\<rparr> AuthorityCodeCSV
       [(AUTH_CODE, ''Local authority code''), (AUTH_NAME_ENG, ''Name (eng)''),
        (AUTH_NAME_CYM, ''Name (cym)'')]
       areasFilter measuresFilter yearsFilter
     = (None, areas)"
  by (simp add: populate_def populateFromAuthorityCodeCSV_def getline_def csv_rows.simps)

lemma csv_two_rows:
  "populate fc parse Areas_ctor
       \<lparr>good = True,
        buf = ''code,eng,cym'' @ endl @ ''W1,Name1,Enw1'' @ endl @ ''W2,Name2,Enw2'' @ endl\<rparr>
       AuthorityCodeCSV
       [(AUTH_CODE, ''Local authority code''), (AUTH_NAME_ENG, ''Name (eng)''),
        (AUTH_NAME_CYM, ''Name (cym)'')]
       None None None
     = (None,
        [(''W1'', \<lparr>localAuthorityCode = ''W1'',
                   names = [(''cym'', ''Enw1''), (''eng'', ''Name1'')], measures = []\<rparr>),
         (''W2'', \<lparr>localAuthorityCode = ''W2'',
                   names = [(''cym'', ''Enw2''), (''eng'', ''Name2'')], measures = []\<rparr>)])"
  by (simp add: populate_def populateFromAuthorityCodeCSV_def getline_def csv_rows.simps endl_def
      csv_row_def getVerableCSV_def setArea_def setName_def Area_ctor_def Areas_ctor_def
      map_find_def map_insert_def)

subsection \<open>The by-year CSV\<close>

text \<open>
  Claim C8: \<open>populate\<close> with the format AuthorityByYearCSV and a sufficient column
  mapping ingests the file, one reading per non-empty cell. The parser for this format
  consists of a \<open>throw\<close>: \<open>populate\<close> raises \<open>std::runtime_error\<close> on every
  such file and records nothing. The comment above the parser describes the import it
  should perform.
\<close>

theorem by_year_csv_not_ingested:
  "populate fc parse areas
       \<lparr>good = True, buf = ''AuthorityCode,1991,1992'' @ endl @ ''W06000011,229.4,'' @ endl\<rparr>
       AuthorityByYearCSV
       [(AUTH_CODE, ''AuthorityCode''), (MEASURE_CODE, ''pop''), (MEASURE_NAME, ''Population'')]
       areasFilter measuresFilter yearsFilter
     = (Some (RuntimeError ''Areas::populateFromAuthorityByYearCSV is not implemented''), areas)"
  by (simp add: populate_def populateFromAuthorityByYearCSV_def)

subsection \<open>The year filter of the JSON parser\<close>


















end
